theory Spec2Isabelle
  imports Complex_Main "HOL-Library.Sublist"
begin

section \<open>JavaScript values\<close>

text \<open>
  The app (\<^verbatim>\<open>app.js\<close>) keeps a settings document and a registry of flow tokens.
  Its values are JavaScript values. A number is a double; here a finite number is a
  rational and \<open>NaN\<close> is kept apart (infinities and the rounding of arithmetic are not
  modelled; the test \<open>x - y\<close> is zero agrees with the doubles, where a difference of
  finite numbers is zero exactly when they are equal). A \<open>Date\<close> is its time value in
  milliseconds.
\<close>

datatype jsnum = NaN | Num rat

datatype jsval =
    JUndefined
  | JNull
  | JBool bool
  | JNum jsnum
  | JStr string
  | JDate int

text \<open>The condition of \<^verbatim>\<open>x ? a : b\<close> and of \<^verbatim>\<open>if (x)\<close>.\<close>

fun truthy :: "jsval \<Rightarrow> bool" where
  "truthy JUndefined = False"
| "truthy JNull = False"
| "truthy (JBool b) = b"
| "truthy (JNum NaN) = False"
| "truthy (JNum (Num r)) = (r \<noteq> 0)"
| "truthy (JStr s) = (s \<noteq> [])"
| "truthy (JDate t) = True"

text \<open>
  An entry of the lists \<open>COMPARISONS\<close> and \<open>TOTALS\<close> is a plain object: its properties
  in the order they were written. Reading a property the object does not have gives
  \<open>undefined\<close>.
\<close>

type_synonym obj = "(string \<times> jsval) list"

definition getprop :: "obj \<Rightarrow> string \<Rightarrow> jsval" where
  "getprop x k = (case map_of x k of None \<Rightarrow> JUndefined | Some v \<Rightarrow> v)"

fun num_sub :: "jsnum \<Rightarrow> jsnum \<Rightarrow> jsnum" where
  "num_sub (Num a) (Num b) = Num (a - b)"
| "num_sub _ _ = NaN"

fun num_abs :: "jsnum \<Rightarrow> jsnum" where
  "num_abs (Num a) = Num \<bar>a\<bar>"
| "num_abs NaN = NaN"

fun num_div :: "jsnum \<Rightarrow> rat \<Rightarrow> jsnum" where
  "num_div (Num a) d = Num (a / d)"
| "num_div NaN d = NaN"

section \<open>What the app is given\<close>

text \<open>
  The helpers of \<^verbatim>\<open>lib/helpers\<close> (\<open>formatToken\<close>, \<open>splitTime\<close>), the host's string
  lookup \<^verbatim>\<open>this.homey.__\<close> and the built-in conversions between strings and numbers
  are parameters of the model.
\<close>

record env =
  translate :: "string \<Rightarrow> string"
  formatToken :: "string \<Rightarrow> string"
  splitTime :: "jsnum \<Rightarrow> (string \<Rightarrow> string) \<Rightarrow> jsval"
  parseFloat_str :: "string \<Rightarrow> jsnum"
  toNumber_str :: "string \<Rightarrow> jsnum"
  toFixed2 :: "jsnum \<Rightarrow> string"

text \<open>\<^verbatim>\<open>parseFloat(v)\<close>: the argument is turned into a string and a decimal prefix is read.\<close>

fun parseFloat :: "env \<Rightarrow> jsval \<Rightarrow> jsnum" where
  "parseFloat E (JStr s) = parseFloat_str E s"
| "parseFloat E (JNum n) = n"
| "parseFloat E _ = NaN"

text \<open>The number an operand of \<^verbatim>\<open>-\<close> stands for.\<close>

fun toNumber :: "env \<Rightarrow> jsval \<Rightarrow> jsnum" where
  "toNumber E JUndefined = NaN"
| "toNumber E JNull = Num 0"
| "toNumber E (JBool b) = Num (if b then 1 else 0)"
| "toNumber E (JNum n) = n"
| "toNumber E (JStr s) = toNumber_str E s"
| "toNumber E (JDate t) = Num (of_int t)"

section \<open>The state of the app\<close>

record settings =
  VARIABLES :: "string list"
  COMPARISONS :: "obj list"
  TOTALS :: "obj list"

text \<open>
  A token handle, as far as the app drives it: the title and type it was created with,
  the last value passed to \<open>setValue\<close>, and whether \<open>unregister\<close> has not been called
  on it yet.
\<close>

record handle =
  h_type :: string
  h_title :: string
  h_value :: jsval
  h_registered :: bool

text \<open>The calls made on the host's token interface, in order.\<close>

datatype host_call =
    CreateToken string string string
  | SetValue string jsval
  | Unregister string

datatype error =
    TypeError string
  | Error string
  | StoreError

text \<open>
  A call of \<open>createToken\<close> that nobody awaits stops at its first \<open>await\<close>: when it has
  asked the host to create the token, it waits for the handle, and the rest of its body
  runs only once the host has answered. Such a waiting call is kept with what the rest
  of the body needs: the identifier, the type and title asked for, and the value to set.
\<close>

record pending_create =
  p_id :: string
  p_type :: string
  p_title :: string
  p_value :: jsval

text \<open>
  \<open>appSettings\<close> and \<open>TOKENS\<close> are the fields of the app object. \<open>stored\<close> is the
  value the host's settings store holds under the app's key, \<open>store_fails\<close> says
  whether the store rejects a write, \<open>error_log\<close> is what \<^verbatim>\<open>this.error\<close> has printed,
  \<open>pending\<close> are the calls of \<open>createToken\<close> waiting for the host, oldest first.
\<close>

record app =
  appSettings :: settings
  TOKENS :: "string \<rightharpoonup> handle"
  stored :: "settings option"
  store_fails :: bool
  host_calls :: "host_call list"
  error_log :: "error list"
  pending :: "pending_create list"

section \<open>Token registry\<close>

record token_options =
  opt_src :: "string option"
  opt_value :: jsval
  opt_type :: string

definition defaultOptions :: token_options where
  "defaultOptions = \<lparr>opt_src = None, opt_value = JNull, opt_type = ''string''\<rparr>"

text \<open>The text of \<^verbatim>\<open>${src}\<close> in a template string.\<close>

fun src_text :: "string option \<Rightarrow> string" where
  "src_text None = ''null''"
| "src_text (Some s) = s"

definition token_title :: "env \<Rightarrow> string \<Rightarrow> string option \<Rightarrow> string" where
  "token_title E name src = name @ '' '' @ translate E (''helpers.'' @ src_text src)"

definition token_id :: "env \<Rightarrow> string \<Rightarrow> string option \<Rightarrow> string" where
  "token_id E name src = formatToken E (token_title E name src)"

definition setValue :: "string \<Rightarrow> jsval \<Rightarrow> app \<Rightarrow> app" where
  "setValue tid v s =
     (case TOKENS s tid of
        None \<Rightarrow> s
      | Some h \<Rightarrow> s\<lparr>TOKENS := (TOKENS s)(tid \<mapsto> h\<lparr>h_value := v\<rparr>),
                    host_calls := host_calls s @ [SetValue tid v]\<rparr>)"

text \<open>
  \<open>createToken\<close> as a caller that awaits it sees it (\<open>action_END\<close> does): the whole
  body, the host's answer included.
\<close>

definition createToken :: "env \<Rightarrow> string \<Rightarrow> token_options \<Rightarrow> app \<Rightarrow> app" where
  "createToken E name options s =
     (let title = token_title E name (opt_src options);
          tid = formatToken E title;
          s1 = (if TOKENS s tid = None
                then s\<lparr>TOKENS := (TOKENS s)(tid \<mapsto>
                          \<lparr>h_type = opt_type options, h_title = title,
                           h_value = JUndefined, h_registered = True\<rparr>),
                        host_calls := host_calls s @ [CreateToken tid (opt_type options) title]\<rparr>
                else s)
      in setValue tid (opt_value options) s1)"

text \<open>
  \<open>createToken\<close> as \<open>setTokens\<close> calls it, without awaiting it. \<open>createToken_start\<close>
  is the part that runs at once, up to the first \<open>await\<close>: with no handle in the
  registry the host is asked to create the token and the call waits; with a handle
  there, \<open>setValue\<close> is called on it. \<open>createToken_resume\<close> is the rest of a waiting
  call, run when the host has answered: the new handle is stored under the identifier,
  whatever is there by then, and \<open>setValue\<close> is called on it. \<open>host_answers\<close> lets the
  host answer every waiting call, in the order they were made.
\<close>

definition createToken_start :: "env \<Rightarrow> string \<Rightarrow> token_options \<Rightarrow> app \<Rightarrow> app" where
  "createToken_start E name options s =
     (let title = token_title E name (opt_src options);
          tid = formatToken E title
      in if TOKENS s tid = None
         then s\<lparr>host_calls := host_calls s @ [CreateToken tid (opt_type options) title],
                 pending := pending s @
                   [\<lparr>p_id = tid, p_type = opt_type options, p_title = title,
                     p_value = opt_value options\<rparr>]\<rparr>
         else setValue tid (opt_value options) s)"

definition createToken_resume :: "pending_create \<Rightarrow> app \<Rightarrow> app" where
  "createToken_resume p s =
     setValue (p_id p) (p_value p)
       (s\<lparr>TOKENS := (TOKENS s)(p_id p \<mapsto>
             \<lparr>h_type = p_type p, h_title = p_title p,
              h_value = JUndefined, h_registered = True\<rparr>)\<rparr>)"

definition host_answers :: "app \<Rightarrow> app" where
  "host_answers s = fold createToken_resume (pending s) (s\<lparr>pending := []\<rparr>)"

text \<open>
  \<open>removeToken\<close> calls \<open>unregister\<close> before its only \<open>await\<close>; what follows is a log
  line. Awaited or not, its effect is the same.
\<close>

definition removeToken :: "env \<Rightarrow> string \<Rightarrow> string \<Rightarrow> app \<Rightarrow> app" where
  "removeToken E name src s =
     (let title = token_title E name (Some src);
          tid = formatToken E title
      in case TOKENS s tid of
           None \<Rightarrow> s
         | Some h \<Rightarrow> s\<lparr>TOKENS := (TOKENS s)(tid \<mapsto> h\<lparr>h_registered := False\<rparr>),
                       host_calls := host_calls s @ [Unregister tid]\<rparr>)"

section \<open>Settings\<close>

text \<open>
  The body of the first \<open>forEach\<close> of \<open>setTokens\<close>, and of the second. The source
  starts these calls without awaiting them, so \<open>setTokens\<close> runs to its end before any
  of them goes on: each \<open>createToken\<close> gets as far as \<open>createToken_start\<close>, and a handle
  the host has yet to deliver is in the registry neither for the later calls of the
  first loop nor for the second loop. The calls that wait are left in \<open>pending\<close>. The
  host's token calls are taken to return normally. The second loop runs only when
  \<open>oldSettings\<close> is not empty.
\<close>

definition create_four :: "env \<Rightarrow> string \<Rightarrow> app \<Rightarrow> app" where
  "create_four E t s =
     (let s1 = createToken_start E t (defaultOptions\<lparr>opt_src := Some ''duration''\<rparr>) s;
          s2 = createToken_start E t (defaultOptions\<lparr>opt_src := Some ''currency'', opt_type := ''string''\<rparr>) s1;
          s3 = createToken_start E t (defaultOptions\<lparr>opt_src := Some ''comparison'', opt_type := ''number''\<rparr>) s2
      in createToken_start E t (defaultOptions\<lparr>opt_src := Some ''calculation'', opt_type := ''number''\<rparr>) s3)"

definition remove_four :: "env \<Rightarrow> string \<Rightarrow> app \<Rightarrow> app" where
  "remove_four E d s =
     (let s1 = removeToken E d ''duration'' s;
          s2 = removeToken E d ''currency'' s1;
          s3 = removeToken E d ''comparison'' s2
      in removeToken E d ''calculation'' s3)"

definition setTokens :: "env \<Rightarrow> string list \<Rightarrow> string list \<Rightarrow> app \<Rightarrow> app" where
  "setTokens E newSettings oldSettings s =
     (let s1 = fold (create_four E) newSettings s
      in if oldSettings \<noteq> []
         then (let difference = filter (\<lambda>x. x \<notin> set newSettings) oldSettings
               in fold (remove_four E) difference s1)
         else s1)"

text \<open>The \<open>try\<close> block of \<open>updateSettings\<close>, then the function with its \<open>catch\<close>.\<close>

definition updateSettings_try :: "env \<Rightarrow> settings \<Rightarrow> bool \<Rightarrow> app \<Rightarrow> (error + unit) \<times> app" where
  "updateSettings_try E newDoc update s =
     (let oldSettings = appSettings s;
          s1 = s\<lparr>appSettings := newDoc\<rparr>
      in if store_fails s1 then (Inl StoreError, s1)
         else (let s2 = s1\<lparr>stored := Some (appSettings s1)\<rparr>
               in if update
                  then (Inr (), setTokens E (VARIABLES newDoc) (VARIABLES oldSettings) s2)
                  else (Inr (), s2)))"

definition updateSettings :: "env \<Rightarrow> settings \<Rightarrow> bool \<Rightarrow> app \<Rightarrow> (error + unit) \<times> app" where
  "updateSettings E newDoc update s =
     (case updateSettings_try E newDoc update s of
        (Inl err, s') \<Rightarrow> (Inr (), s'\<lparr>error_log := error_log s' @ [err]\<rparr>)
      | (Inr u, s') \<Rightarrow> (Inr (), s'))"

definition default_settings :: settings where
  "default_settings = \<lparr>VARIABLES = [], COMPARISONS = [], TOTALS = []\<rparr>"

definition initSettings :: "env \<Rightarrow> app \<Rightarrow> app" where
  "initSettings E s =
     (let s0 = s\<lparr>TOKENS := Map.empty\<rparr>
      in case stored s of
           Some d \<Rightarrow> s0\<lparr>appSettings := d\<rparr>
         | None \<Rightarrow> snd (updateSettings E default_settings False s0))"

definition onInit :: "env \<Rightarrow> app \<Rightarrow> app" where
  "onInit E s = (let s1 = initSettings E s in setTokens E (VARIABLES (appSettings s1)) [] s1)"

section \<open>Timer actions\<close>

text \<open>
  \<open>now\<close> is the time \<^verbatim>\<open>new Date()\<close> reads. The second parameter of \<open>action_START\<close>
  is an options object with the defaults \<open>defaultStartOptions\<close>; the default \<open>null\<close>
  of the second parameter of \<open>action_END\<close> replaces \<open>undefined\<close>. In \<open>action_END\<close> the
  date of the entry found is read first (a \<open>TypeError\<close> when nothing was found), and
  only then the entry is tested, as in the source.
\<close>

record start_options =
  dateStart :: jsval
  comparison :: jsval

definition defaultStartOptions :: start_options where
  "defaultStartOptions = \<lparr>dateStart = JNull, comparison = JNull\<rparr>"

definition calculateDuration :: "env \<Rightarrow> jsval \<Rightarrow> jsval \<Rightarrow> jsval" where
  "calculateDuration E startDate endDate =
     (let diffInMilliseconds = num_div (num_abs (num_sub (toNumber E startDate) (toNumber E endDate))) 1000
      in splitTime E diffInMilliseconds (translate E))"

definition calculateComparison :: "env \<Rightarrow> jsval \<Rightarrow> jsval \<Rightarrow> jsval" where
  "calculateComparison E start end =
     (let c = num_sub (parseFloat E end) (parseFloat E start)
      in if truthy (JNum c) then JStr (toFixed2 E c) else JNum (Num 0))"

definition action_START :: "env \<Rightarrow> int \<Rightarrow> string \<Rightarrow> start_options \<Rightarrow> app \<Rightarrow> (error + unit) \<times> app" where
  "action_START E now token options s =
     (let date = (if truthy (dateStart options) then JDate now else dateStart options);
          newSettings = filter (\<lambda>setting. getprop setting ''name'' \<noteq> JStr token)
                          (COMPARISONS (appSettings s))
      in updateSettings E
           ((appSettings s)\<lparr>COMPARISONS := newSettings @
               [[(''token'', JStr token), (''date'', date), (''comparison'', comparison options)]]\<rparr>)
           False s)"

definition action_END :: "env \<Rightarrow> int \<Rightarrow> string \<Rightarrow> jsval \<Rightarrow> app \<Rightarrow> (error + unit) \<times> app" where
  "action_END E now token value0 s =
     (let v = (if value0 = JUndefined then JNull else value0);
          existing_comparison = find (\<lambda>x. getprop x ''name'' = JStr token)
                                  (COMPARISONS (appSettings s))
      in case existing_comparison of
           None \<Rightarrow> (Inl (TypeError ''Cannot read properties of undefined (reading date)''), s)
         | Some ec \<Rightarrow>
             (let date = (if truthy (getprop ec ''date'') then JDate now else JNull)
              in if existing_comparison = None
                 then (Inl (Error (''No comparison found for '' @ token)), s)
                 else
                   (let duration = (if truthy date then calculateDuration E (getprop ec ''date'') date else JNull);
                        cmp = (if truthy v then calculateComparison E (getprop ec ''comparison'') v else JNull);
                        totals = filter (\<lambda>total. getprop total ''name'' \<noteq> JStr token)
                                   (TOTALS (appSettings s));
                        s1 = snd (updateSettings E
                               ((appSettings s)\<lparr>TOTALS := totals @
                                  [[(''token'', JStr token), (''duration'', duration), (''comparison'', cmp)]]\<rparr>)
                               False s);
                        s2 = createToken E token
                               (defaultOptions\<lparr>opt_src := Some ''duration'', opt_value := duration\<rparr>) s1
                    in if truthy cmp
                       then (Inr (), createToken E token
                               (defaultOptions\<lparr>opt_src := Some ''comparison'',
                                  opt_value := JNum (parseFloat E cmp), opt_type := ''number''\<rparr>) s2)
                       else (Inr (), s2))))"

section \<open>A concrete environment\<close>

text \<open>
  Modelled from the spec: \<open>formatToken\<close> of \<^verbatim>\<open>lib/helpers\<close> is not among the sources.
  The specification describes it as deterministic, lower-casing the title and
  collapsing whitespace and punctuation to a separator; \<open>formatToken_spec\<close> does that
  with the separator \<open>_\<close>. The labels stand for the app's locale file, the other
  helpers are fixed stand-ins. The environment \<open>env0\<close> serves to run the model on
  concrete inputs; the general theorems below hold for every environment.
\<close>

definition is_alnum :: "char \<Rightarrow> bool" where
  "is_alnum c =
     (let n = (of_char c :: nat)
      in (48 \<le> n \<and> n \<le> 57) \<or> (65 \<le> n \<and> n \<le> 90) \<or> (97 \<le> n \<and> n \<le> 122))"

definition lower_char :: "char \<Rightarrow> char" where
  "lower_char c = (let n = (of_char c :: nat) in if 65 \<le> n \<and> n \<le> 90 then char_of (n + 32) else c)"

fun normalise :: "bool \<Rightarrow> string \<Rightarrow> string" where
  "normalise sep [] = []"
| "normalise sep (c # cs) =
     (if is_alnum c then lower_char c # normalise False cs
      else if sep then normalise True cs
      else CHR ''_'' # normalise True cs)"

definition formatToken_spec :: "string \<Rightarrow> string" where
  "formatToken_spec title = normalise False title"

definition labels :: "string \<Rightarrow> string" where
  "labels k =
     (if k = ''helpers.duration'' then ''Duration''
      else if k = ''helpers.currency'' then ''Currency''
      else if k = ''helpers.comparison'' then ''Comparison''
      else if k = ''helpers.calculation'' then ''Calculation''
      else k)"

definition env0 :: env where
  "env0 = \<lparr>translate = labels, formatToken = formatToken_spec,
            splitTime = (\<lambda>n tr. JStr ''0 seconds''), parseFloat_str = (\<lambda>s. NaN),
            toNumber_str = (\<lambda>s. NaN), toFixed2 = (\<lambda>n. ''0.00'')\<rparr>"

text \<open>
  The app object before \<open>onInit\<close>, on a host whose store has no settings yet
  (\<open>appSettings\<close> is not read before \<open>initSettings\<close> has set it), and the app once
  \<open>onInit\<close> has run: the state in which the flow actions are first dispatched.
\<close>

definition fresh_app :: app where
  "fresh_app = \<lparr>appSettings = default_settings, TOKENS = Map.empty, stored = None,
                store_fails = False, host_calls = [], error_log = [], pending = []\<rparr>"

definition started_app :: app where
  "started_app = onInit env0 fresh_app"

definition timed :: "rat \<Rightarrow> start_options" where
  "timed baseline = \<lparr>dateStart = JBool True, comparison = JNum (Num baseline)\<rparr>"

section \<open>Notions for stating the properties\<close>

text \<open>
  The four kinds of token a tracked name has, the identifiers of its tokens, and the
  names \<open>setTokens\<close> removes (its local \<open>difference\<close>).
\<close>

definition kinds :: "string list" where
  "kinds = [''duration'', ''currency'', ''comparison'', ''calculation'']"

definition four_ids :: "env \<Rightarrow> string \<Rightarrow> string list" where
  "four_ids E n = map (\<lambda>k. token_id E n (Some k)) kinds"

definition ids_of :: "env \<Rightarrow> string list \<Rightarrow> string list" where
  "ids_of E names = concat (map (four_ids E) names)"

definition difference :: "string list \<Rightarrow> string list \<Rightarrow> string list" where
  "difference newSettings oldSettings = filter (\<lambda>x. x \<notin> set newSettings) oldSettings"

text \<open>
  What the first loop of \<open>setTokens\<close> asks the host for when the registry has none of
  the handles: the four tokens of each name, with their types, to be set to null.
\<close>

definition request :: "env \<Rightarrow> string \<Rightarrow> string \<Rightarrow> string \<Rightarrow> pending_create" where
  "request E n k ty =
     \<lparr>p_id = token_id E n (Some k), p_type = ty, p_title = token_title E n (Some k),
      p_value = JNull\<rparr>"

definition four_requests :: "env \<Rightarrow> string \<Rightarrow> pending_create list" where
  "four_requests E n =
     [request E n ''duration'' ''string'', request E n ''currency'' ''string'',
      request E n ''comparison'' ''number'', request E n ''calculation'' ''number'']"

definition requests :: "env \<Rightarrow> string list \<Rightarrow> pending_create list" where
  "requests E names = concat (map (four_requests E) names)"

text \<open>
  For a token identifier: the registry holds a handle whose value is null; the registry
  holds a handle that is still registered with the host. And the entries of a list that
  belong to another name than the given one, by either property.
\<close>

definition has_null :: "app \<Rightarrow> string \<Rightarrow> bool" where
  "has_null s t = (case TOKENS s t of None \<Rightarrow> False | Some h \<Rightarrow> h_value h = JNull)"

definition live :: "app \<Rightarrow> string \<Rightarrow> bool" where
  "live s t = (case TOKENS s t of None \<Rightarrow> False | Some h \<Rightarrow> h_registered h)"

definition of_other_names :: "string \<Rightarrow> obj list \<Rightarrow> obj list" where
  "of_other_names token xs =
     filter (\<lambda>e. getprop e ''token'' \<noteq> JStr token \<and> getprop e ''name'' \<noteq> JStr token) xs"

text \<open>
  States used to run the model: the name \<open>a\<close> tracked, then removed again, and the
  names \<open>a\<close> and \<open>b\<close> tracked, the host having answered each time; and the app with a
  comparison \<open>b\<close> started.
\<close>

definition app_a :: app where
  "app_a = host_answers (setTokens env0 [''a''] [] started_app)"

definition app_a_removed :: app where
  "app_a_removed = host_answers (setTokens env0 [] [''a''] app_a)"

definition app_ab :: app where
  "app_ab = host_answers (setTokens env0 [''a'', ''b''] [] started_app)"

definition app_b_started :: app where
  "app_b_started = snd (action_START env0 500 ''b'' (timed 3) started_app)"

section \<open>Fields the token operations leave alone\<close>

lemma started_app_eq:
  "started_app = \<lparr>appSettings = default_settings, TOKENS = Map.empty, stored = Some default_settings,
                   store_fails = False, host_calls = [], error_log = [], pending = []\<rparr>"
  by (simp add: started_app_def onInit_def initSettings_def fresh_app_def updateSettings_def
        updateSettings_try_def setTokens_def default_settings_def Let_def)


lemma started_app_settings: "appSettings started_app = default_settings"
  by code_simp

lemma setValue_other_fields:
  "appSettings (setValue t v s) = appSettings s"
  "stored (setValue t v s) = stored s"
  "store_fails (setValue t v s) = store_fails s"
  "error_log (setValue t v s) = error_log s"
  by (simp_all add: setValue_def split: option.splits)

lemma createToken_other_fields:
  "appSettings (createToken E n opts s) = appSettings s"
  "stored (createToken E n opts s) = stored s"
  "store_fails (createToken E n opts s) = store_fails s"
  "error_log (createToken E n opts s) = error_log s"
  by (simp_all add: createToken_def Let_def setValue_other_fields)

lemma createToken_start_other_fields:
  "appSettings (createToken_start E n opts s) = appSettings s"
  "stored (createToken_start E n opts s) = stored s"
  "store_fails (createToken_start E n opts s) = store_fails s"
  "error_log (createToken_start E n opts s) = error_log s"
  by (simp_all add: createToken_start_def Let_def setValue_other_fields)

lemma removeToken_other_fields:
  "appSettings (removeToken E n src s) = appSettings s"
  "stored (removeToken E n src s) = stored s"
  "store_fails (removeToken E n src s) = store_fails s"
  "error_log (removeToken E n src s) = error_log s"
  by (simp_all add: removeToken_def Let_def split: option.splits)

lemma create_four_other_fields:
  "appSettings (create_four E n s) = appSettings s"
  "stored (create_four E n s) = stored s"
  "store_fails (create_four E n s) = store_fails s"
  "error_log (create_four E n s) = error_log s"
  by (simp_all add: create_four_def Let_def createToken_start_other_fields)

lemma remove_four_other_fields:
  "appSettings (remove_four E n s) = appSettings s"
  "stored (remove_four E n s) = stored s"
  "store_fails (remove_four E n s) = store_fails s"
  "error_log (remove_four E n s) = error_log s"
  by (simp_all add: remove_four_def Let_def removeToken_other_fields)

lemma fold_create_four_other_fields:
  "appSettings (fold (create_four E) ns s) = appSettings s"
  "stored (fold (create_four E) ns s) = stored s"
  "store_fails (fold (create_four E) ns s) = store_fails s"
  "error_log (fold (create_four E) ns s) = error_log s"
  by (induction ns arbitrary: s; simp add: create_four_other_fields)+

lemma fold_remove_four_other_fields:
  "appSettings (fold (remove_four E) ns s) = appSettings s"
  "stored (fold (remove_four E) ns s) = stored s"
  "store_fails (fold (remove_four E) ns s) = store_fails s"
  "error_log (fold (remove_four E) ns s) = error_log s"
  by (induction ns arbitrary: s; simp add: remove_four_other_fields)+

lemma setTokens_other_fields:
  "appSettings (setTokens E new old s) = appSettings s"
  "stored (setTokens E new old s) = stored s"
  "store_fails (setTokens E new old s) = store_fails s"
  "error_log (setTokens E new old s) = error_log s"
  by (simp_all add: setTokens_def Let_def fold_create_four_other_fields fold_remove_four_other_fields)

section \<open>Token registry: createToken and removeToken\<close>

text \<open>
  C5. \<open>createToken\<close> registers a token with the host only when the registry has no
  handle under the derived identifier, and otherwise reuses the handle it has; in both
  cases the handle's value is set to the supplied value, whatever it was before. No
  other identifier of the registry is touched.
\<close>

theorem createToken_registers_once_and_sets_value:
  "(TOKENS s (token_id E name (opt_src options)) = None \<longrightarrow>
      TOKENS (createToken E name options s) (token_id E name (opt_src options))
        = Some \<lparr>h_type = opt_type options, h_title = token_title E name (opt_src options),
                 h_value = opt_value options, h_registered = True\<rparr>
      \<and> host_calls (createToken E name options s)
        = host_calls s @ [CreateToken (token_id E name (opt_src options)) (opt_type options)
                            (token_title E name (opt_src options)),
                          SetValue (token_id E name (opt_src options)) (opt_value options)])
   \<and> (\<forall>h. TOKENS s (token_id E name (opt_src options)) = Some h \<longrightarrow>
      TOKENS (createToken E name options s) (token_id E name (opt_src options))
        = Some (h\<lparr>h_value := opt_value options\<rparr>)
      \<and> host_calls (createToken E name options s)
        = host_calls s @ [SetValue (token_id E name (opt_src options)) (opt_value options)])
   \<and> (\<forall>k. k \<noteq> token_id E name (opt_src options) \<longrightarrow>
      TOKENS (createToken E name options s) k = TOKENS s k)"
  by (auto simp add: createToken_def token_id_def setValue_def Let_def split: option.splits)

text \<open>
  The theorem at work: a currency token is created with a value, then created again
  with another value. The host sees one registration and two values.
\<close>

theorem createToken_witness:
  "TOKENS (createToken env0 ''a''
      (defaultOptions\<lparr>opt_src := Some ''currency'', opt_value := JStr ''EUR 5''\<rparr>) started_app)
      (token_id env0 ''a'' (Some ''currency''))
     = Some \<lparr>h_type = ''string'', h_title = ''a Currency'', h_value = JStr ''EUR 5'', h_registered = True\<rparr>
   \<and> TOKENS (createToken env0 ''a''
      (defaultOptions\<lparr>opt_src := Some ''currency'', opt_value := JStr ''EUR 7''\<rparr>)
      (createToken env0 ''a''
        (defaultOptions\<lparr>opt_src := Some ''currency'', opt_value := JStr ''EUR 5''\<rparr>) started_app))
      (token_id env0 ''a'' (Some ''currency''))
     = Some \<lparr>h_type = ''string'', h_title = ''a Currency'', h_value = JStr ''EUR 7'', h_registered = True\<rparr>
   \<and> host_calls (createToken env0 ''a''
      (defaultOptions\<lparr>opt_src := Some ''currency'', opt_value := JStr ''EUR 7''\<rparr>)
      (createToken env0 ''a''
        (defaultOptions\<lparr>opt_src := Some ''currency'', opt_value := JStr ''EUR 5''\<rparr>) started_app))
     = [CreateToken ''a_currency'' ''string'' ''a Currency'',
        SetValue ''a_currency'' (JStr ''EUR 5''), SetValue ''a_currency'' (JStr ''EUR 7'')]"
proof -
  let ?o5 = "defaultOptions\<lparr>opt_src := Some ''currency'', opt_value := JStr ''EUR 5''\<rparr>"
  let ?o7 = "defaultOptions\<lparr>opt_src := Some ''currency'', opt_value := JStr ''EUR 7''\<rparr>"
  let ?s1 = "createToken env0 ''a'' ?o5 started_app"
  have tid: "token_id env0 ''a'' (Some ''currency'') = ''a_currency''" by code_simp
  have title: "token_title env0 ''a'' (Some ''currency'') = ''a Currency''" by code_simp
  have none: "TOKENS started_app (token_id env0 ''a'' (opt_src ?o5)) = None"
    by (simp add: started_app_eq)
  have calls: "host_calls started_app = []" by (simp add: started_app_eq)
  note first = createToken_registers_once_and_sets_value [of started_app env0 "''a''" ?o5]
  from first none have t1: "TOKENS ?s1 (token_id env0 ''a'' (opt_src ?o5))
      = Some \<lparr>h_type = opt_type ?o5, h_title = token_title env0 ''a'' (opt_src ?o5),
               h_value = opt_value ?o5, h_registered = True\<rparr>"
    by blast
  from first none have c1: "host_calls ?s1 = host_calls started_app
      @ [CreateToken (token_id env0 ''a'' (opt_src ?o5)) (opt_type ?o5) (token_title env0 ''a'' (opt_src ?o5)),
         SetValue (token_id env0 ''a'' (opt_src ?o5)) (opt_value ?o5)]"
    by blast
  have t1': "TOKENS ?s1 (token_id env0 ''a'' (opt_src ?o7))
      = Some \<lparr>h_type = opt_type ?o5, h_title = token_title env0 ''a'' (opt_src ?o5),
               h_value = opt_value ?o5, h_registered = True\<rparr>"
    using t1 by simp
  note second = createToken_registers_once_and_sets_value [of ?s1 env0 "''a''" ?o7]
  from second t1' have t2: "TOKENS (createToken env0 ''a'' ?o7 ?s1) (token_id env0 ''a'' (opt_src ?o7))
      = Some (\<lparr>h_type = opt_type ?o5, h_title = token_title env0 ''a'' (opt_src ?o5),
               h_value = opt_value ?o5, h_registered = True\<rparr>\<lparr>h_value := opt_value ?o7\<rparr>)"
    by blast
  from second t1' have c2: "host_calls (createToken env0 ''a'' ?o7 ?s1)
      = host_calls ?s1 @ [SetValue (token_id env0 ''a'' (opt_src ?o7)) (opt_value ?o7)]"
    by blast
  show ?thesis
    using t1 t2 c1 c2 calls tid title by (simp add: defaultOptions_def)
qed

text \<open>
  C6, as the code has it. \<open>removeToken\<close> derives the identifier as \<open>createToken\<close>
  does. If the registry holds a handle under it, the host is asked to unregister the
  token and the handle stays in the registry, marked unregistered; if it holds none,
  nothing happens. No other identifier is touched.
\<close>

theorem removeToken_unregisters_and_keeps_handle:
  "(TOKENS s (token_id E name (Some src)) = None \<longrightarrow> removeToken E name src s = s)
   \<and> (\<forall>h. TOKENS s (token_id E name (Some src)) = Some h \<longrightarrow>
      TOKENS (removeToken E name src s) (token_id E name (Some src))
        = Some (h\<lparr>h_registered := False\<rparr>)
      \<and> host_calls (removeToken E name src s)
        = host_calls s @ [Unregister (token_id E name (Some src))])
   \<and> (\<forall>k. k \<noteq> token_id E name (Some src) \<longrightarrow>
      TOKENS (removeToken E name src s) k = TOKENS s k)"
  by (auto simp add: removeToken_def token_id_def Let_def split: option.splits)

theorem removeToken_witness:
  "TOKENS (removeToken env0 ''a'' ''comparison'' app_a) (token_id env0 ''a'' (Some ''comparison''))
     = Some \<lparr>h_type = ''number'', h_title = ''a Comparison'', h_value = JNull, h_registered = False\<rparr>
   \<and> host_calls (removeToken env0 ''a'' ''comparison'' app_a)
     = host_calls app_a @ [Unregister ''a_comparison'']
   \<and> removeToken env0 ''b'' ''comparison'' app_a = app_a"
proof -
  have tid: "token_id env0 ''a'' (Some ''comparison'') = ''a_comparison''" by code_simp
  have some: "TOKENS app_a (token_id env0 ''a'' (Some ''comparison''))
     = Some \<lparr>h_type = ''number'', h_title = ''a Comparison'', h_value = JNull, h_registered = True\<rparr>"
    by code_simp
  have none: "TOKENS app_a (token_id env0 ''b'' (Some ''comparison'')) = None" by code_simp
  note a = removeToken_unregisters_and_keeps_handle [of app_a env0 "''a''" "''comparison''"]
  note b = removeToken_unregisters_and_keeps_handle [of app_a env0 "''b''" "''comparison''"]
  from a some have 1: "TOKENS (removeToken env0 ''a'' ''comparison'' app_a) (token_id env0 ''a'' (Some ''comparison''))
     = Some (\<lparr>h_type = ''number'', h_title = ''a Comparison'', h_value = JNull, h_registered = True\<rparr>\<lparr>h_registered := False\<rparr>)"
    by blast
  from a some have 2: "host_calls (removeToken env0 ''a'' ''comparison'' app_a)
     = host_calls app_a @ [Unregister (token_id env0 ''a'' (Some ''comparison''))]"
    by blast
  from b none have 3: "removeToken env0 ''b'' ''comparison'' app_a = app_a" by blast
  show ?thesis using 1 2 3 tid by simp
qed

text \<open>
  The specification has the handle dropped from the registry. It is not: after the
  removal of the duration token of \<open>a\<close> its handle is still there.
\<close>

theorem removeToken_keeps_handle_counterexample:
  "TOKENS (removeToken env0 ''a'' ''duration'' app_a) (token_id env0 ''a'' (Some ''duration''))
   = Some \<lparr>h_type = ''string'', h_title = ''a Duration'', h_value = JNull, h_registered = False\<rparr>"
  by code_simp

section \<open>Settings: updateSettings\<close>

text \<open>
  C9. \<open>updateSettings\<close> replaces the whole settings document in memory. If the host
  store takes the write, the document is persisted and, only when the flag is set, the
  tokens are reconciled from the old and new \<open>VARIABLES\<close>. If the store rejects the
  write, the error is logged and not raised; the document in memory is the new one, the
  store and the tokens are as before. The call itself never fails.
\<close>

theorem updateSettings_replaces_persists_and_swallows:
  "fst (updateSettings E d u s) = Inr ()
   \<and> appSettings (snd (updateSettings E d u s)) = d
   \<and> (\<not> store_fails s \<longrightarrow>
        snd (updateSettings E d u s)
          = (if u then setTokens E (VARIABLES d) (VARIABLES (appSettings s))
                         (s\<lparr>appSettings := d, stored := Some d\<rparr>)
             else s\<lparr>appSettings := d, stored := Some d\<rparr>)
        \<and> stored (snd (updateSettings E d u s)) = Some d
        \<and> error_log (snd (updateSettings E d u s)) = error_log s)
   \<and> (store_fails s \<longrightarrow>
        snd (updateSettings E d u s)
          = s\<lparr>appSettings := d, error_log := error_log s @ [StoreError]\<rparr>)"
  by (simp add: updateSettings_def updateSettings_try_def Let_def setTokens_other_fields)
theorem updateSettings_witness:
  "fst (updateSettings env0 (default_settings\<lparr>VARIABLES := [''a'']\<rparr>) True started_app) = Inr ()
   \<and> stored (snd (updateSettings env0 (default_settings\<lparr>VARIABLES := [''a'']\<rparr>) True started_app))
       = Some (default_settings\<lparr>VARIABLES := [''a'']\<rparr>)
   \<and> snd (updateSettings env0 (default_settings\<lparr>VARIABLES := [''a'']\<rparr>) True started_app)
       = setTokens env0 [''a''] []
           (started_app\<lparr>appSettings := default_settings\<lparr>VARIABLES := [''a'']\<rparr>,
                         stored := Some (default_settings\<lparr>VARIABLES := [''a'']\<rparr>)\<rparr>)
   \<and> snd (updateSettings env0 (default_settings\<lparr>VARIABLES := [''a'']\<rparr>) True
            (started_app\<lparr>store_fails := True\<rparr>))
       = started_app\<lparr>store_fails := True, appSettings := default_settings\<lparr>VARIABLES := [''a'']\<rparr>,
                      error_log := [StoreError]\<rparr>"
proof -
  let ?d = "default_settings\<lparr>VARIABLES := [''a'']\<rparr>"
  have ok: "\<not> store_fails started_app" "VARIABLES (appSettings started_app) = []"
    "error_log started_app = []"
    by (simp_all add: started_app_eq default_settings_def)
  have bad: "store_fails (started_app\<lparr>store_fails := True\<rparr>)" by simp
  show ?thesis
    using updateSettings_replaces_persists_and_swallows [of env0 ?d True started_app]
      updateSettings_replaces_persists_and_swallows [of env0 ?d True "started_app\<lparr>store_fails := True\<rparr>"]
      ok bad
    by (simp add: default_settings_def setTokens_other_fields)
qed
section \<open>Reconciliation: setTokens\<close>

lemma setTokens_folds:
  "setTokens E new old s = fold (remove_four E) (difference new old) (fold (create_four E) new s)"
  by (cases old) (simp_all add: setTokens_def difference_def)

lemma four_ids_eq:
  "four_ids E n = [token_id E n (Some ''duration''), token_id E n (Some ''currency''),
      token_id E n (Some ''comparison''), token_id E n (Some ''calculation'')]"
  by (simp add: four_ids_def kinds_def)

lemma ids_of_Cons: "ids_of E (n # ns) = four_ids E n @ ids_of E ns"
  by (simp add: ids_of_def)

lemma ids_of_Nil: "ids_of E [] = []"
  by (simp add: ids_of_def)

lemma requests_Cons: "requests E (n # ns) = four_requests E n @ requests E ns"
  by (simp add: requests_def)

lemma requests_Nil: "requests E [] = []"
  by (simp add: requests_def)

lemma four_requests_ids: "map p_id (four_requests E n) = four_ids E n"
  by (simp add: four_requests_def request_def four_ids_eq)

lemma requests_ids: "map p_id (requests E ns) = ids_of E ns"
  by (induction ns) (simp_all add: requests_Cons requests_Nil ids_of_Cons ids_of_Nil four_requests_ids)

lemma four_requests_null: "p \<in> set (four_requests E n) \<Longrightarrow> p_value p = JNull"
  by (auto simp add: four_requests_def request_def)

lemma requests_null: "p \<in> set (requests E ns) \<Longrightarrow> p_value p = JNull"
  by (auto simp add: requests_def four_requests_null)

lemma ids_of_member:
  "n \<in> set ns \<Longrightarrow> k \<in> set kinds \<Longrightarrow> token_id E n (Some k) \<in> set (ids_of E ns)"
  by (auto simp add: ids_of_def four_ids_def)

lemma difference_set: "set (difference new old) = set old - set new"
  by (auto simp add: difference_def)

subsection \<open>A call of createToken up to its first await\<close>

lemma createToken_start_dom:
  "(TOKENS (createToken_start E n opts s) t = None) = (TOKENS s t = None)"
  by (auto simp add: createToken_start_def setValue_def Let_def split: option.splits)

lemma createToken_start_live:
  "live (createToken_start E n opts s) t = live s t"
  by (auto simp add: createToken_start_def setValue_def live_def Let_def split: option.splits)

lemma createToken_start_keeps_has_null:
  "opt_value opts = JNull \<Longrightarrow> has_null s t \<Longrightarrow> has_null (createToken_start E n opts s) t"
  by (auto simp add: createToken_start_def setValue_def has_null_def Let_def split: option.splits)

lemma createToken_start_has_null:
  "opt_value opts = JNull \<Longrightarrow> TOKENS s (token_id E n (opt_src opts)) \<noteq> None \<Longrightarrow>
   has_null (createToken_start E n opts s) (token_id E n (opt_src opts))"
  by (auto simp add: createToken_start_def setValue_def has_null_def token_id_def Let_def split: option.splits)

lemma createToken_start_pending:
  "opt_value opts = JNull \<Longrightarrow> opt_src opts = Some k \<Longrightarrow>
   pending (createToken_start E n opts s)
   = pending s @ filter (\<lambda>p. TOKENS s (p_id p) = None) [request E n k (opt_type opts)]"
  by (auto simp add: createToken_start_def setValue_def request_def token_id_def Let_def split: option.splits)

lemma createToken_start_again:
  assumes "has_null s (token_id E n (opt_src opts))" "opt_value opts = JNull"
  shows "TOKENS (createToken_start E n opts s) = TOKENS s"
    and "host_calls (createToken_start E n opts s)
         = host_calls s @ [SetValue (token_id E n (opt_src opts)) JNull]"
  using assms
  by (auto simp add: createToken_start_def setValue_def has_null_def token_id_def Let_def
        fun_upd_idem split: option.splits)

subsection \<open>The rest of a waiting call\<close>

lemma createToken_resume_live:
  "live (createToken_resume p s) t = (t = p_id p \<or> live s t)"
  by (simp add: createToken_resume_def setValue_def live_def)

lemma createToken_resume_has_null:
  "p_value p = JNull \<Longrightarrow> has_null (createToken_resume p s) t = (t = p_id p \<or> has_null s t)"
  by (simp add: createToken_resume_def setValue_def has_null_def)

lemma createToken_resume_pending:
  "pending (createToken_resume p s) = pending s"
  by (simp add: createToken_resume_def setValue_def)

lemma resumes_live:
  "live (fold createToken_resume ps s) t = (t \<in> set (map p_id ps) \<or> live s t)"
  by (induction ps arbitrary: s) (auto simp add: createToken_resume_live)

lemma resumes_has_null:
  "\<forall>p \<in> set ps. p_value p = JNull \<Longrightarrow>
   has_null (fold createToken_resume ps s) t = (t \<in> set (map p_id ps) \<or> has_null s t)"
  by (induction ps arbitrary: s) (auto simp add: createToken_resume_has_null)

lemma resumes_pending:
  "pending (fold createToken_resume ps s) = pending s"
  by (induction ps arbitrary: s) (simp_all add: createToken_resume_pending)

lemma host_answers_pending: "pending (host_answers s) = []"
  by (simp add: host_answers_def resumes_pending)

lemma host_answers_live:
  "live (host_answers s) t = (t \<in> set (map p_id (pending s)) \<or> live s t)"
  unfolding host_answers_def resumes_live by (simp add: live_def)

lemma host_answers_has_null:
  "\<forall>p \<in> set (pending s). p_value p = JNull \<Longrightarrow>
   has_null (host_answers s) t = (t \<in> set (map p_id (pending s)) \<or> has_null s t)"
  unfolding host_answers_def by (subst resumes_has_null) (simp_all add: has_null_def)

lemma host_answers_none: "pending s = [] \<Longrightarrow> host_answers s = s"
  by (simp add: host_answers_def)

lemma createToken_is_start_then_answer:
  "pending s = [] \<Longrightarrow> host_answers (createToken_start E n opts s) = createToken E n opts s"
  by (simp add: host_answers_def createToken_start_def createToken_def createToken_resume_def
        setValue_def Let_def split: option.splits)

subsection \<open>One remove\<close>

lemma removeToken_dom:
  "(TOKENS (removeToken E n src s) t = None) = (TOKENS s t = None)"
  by (auto simp add: removeToken_def Let_def split: option.splits)

lemma removeToken_live:
  "live (removeToken E n src s) t = (live s t \<and> t \<noteq> token_id E n (Some src))"
  by (auto simp add: removeToken_def live_def token_id_def Let_def split: option.splits)

lemma removeToken_has_null:
  "has_null (removeToken E n src s) t = has_null s t"
  by (auto simp add: removeToken_def has_null_def Let_def split: option.splits)

lemma removeToken_pending:
  "pending (removeToken E n src s) = pending s"
  by (auto simp add: removeToken_def Let_def split: option.splits)

lemma removeToken_calls:
  "host_calls (removeToken E n src s)
   = host_calls s @ map Unregister (filter (\<lambda>t. TOKENS s t \<noteq> None) [token_id E n (Some src)])"
  by (auto simp add: removeToken_def token_id_def Let_def split: option.splits)

lemma removeToken_again:
  "\<not> live s (token_id E n (Some src)) \<Longrightarrow> TOKENS (removeToken E n src s) = TOKENS s"
  by (auto simp add: removeToken_def live_def token_id_def Let_def fun_upd_idem split: option.splits)

subsection \<open>The four tokens of a name\<close>

lemma create_four_dom:
  "(TOKENS (create_four E n s) t = None) = (TOKENS s t = None)"
  by (simp add: create_four_def Let_def createToken_start_dom)

lemma create_four_live:
  "live (create_four E n s) t = live s t"
  by (simp add: create_four_def Let_def createToken_start_live)

lemma create_four_keeps_has_null:
  "has_null s t \<Longrightarrow> has_null (create_four E n s) t"
  by (simp add: create_four_def Let_def defaultOptions_def createToken_start_keeps_has_null)

lemma create_four_pending:
  "pending (create_four E n s)
   = pending s @ filter (\<lambda>p. TOKENS s (p_id p) = None) (four_requests E n)"
  by (simp add: create_four_def Let_def defaultOptions_def four_requests_def
        createToken_start_pending [where k = "''duration''"]
        createToken_start_pending [where k = "''currency''"]
        createToken_start_pending [where k = "''comparison''"]
        createToken_start_pending [where k = "''calculation''"]
        createToken_start_dom)

lemma remove_four_dom:
  "(TOKENS (remove_four E n s) t = None) = (TOKENS s t = None)"
  by (simp add: remove_four_def Let_def removeToken_dom)

lemma remove_four_live:
  "live (remove_four E n s) t = (live s t \<and> t \<notin> set (four_ids E n))"
  by (auto simp add: remove_four_def Let_def removeToken_live four_ids_eq)

lemma remove_four_has_null:
  "has_null (remove_four E n s) t = has_null s t"
  by (simp add: remove_four_def Let_def removeToken_has_null)

lemma remove_four_pending:
  "pending (remove_four E n s) = pending s"
  by (simp add: remove_four_def Let_def removeToken_pending)

lemma remove_four_calls:
  "host_calls (remove_four E n s)
   = host_calls s @ map Unregister (filter (\<lambda>t. TOKENS s t \<noteq> None) (four_ids E n))"
  by (simp del: not_None_eq add: remove_four_def Let_def removeToken_calls removeToken_dom four_ids_eq)

lemma create_four_has_null:
  assumes "t \<in> set (four_ids E n)" "TOKENS s t \<noteq> None"
  shows "has_null (create_four E n s) t"
proof -
  let ?o1 = "defaultOptions\<lparr>opt_src := Some ''duration''\<rparr>"
  let ?o2 = "defaultOptions\<lparr>opt_src := Some ''currency'', opt_type := ''string''\<rparr>"
  let ?o3 = "defaultOptions\<lparr>opt_src := Some ''comparison'', opt_type := ''number''\<rparr>"
  let ?o4 = "defaultOptions\<lparr>opt_src := Some ''calculation'', opt_type := ''number''\<rparr>"
  let ?s1 = "createToken_start E n ?o1 s"
  let ?s2 = "createToken_start E n ?o2 ?s1"
  let ?s3 = "createToken_start E n ?o3 ?s2"
  let ?s4 = "createToken_start E n ?o4 ?s3"
  have v: "opt_value ?o1 = JNull" "opt_value ?o2 = JNull" "opt_value ?o3 = JNull" "opt_value ?o4 = JNull"
    by (simp_all add: defaultOptions_def)
  have unf: "create_four E n s = ?s4" by (simp add: create_four_def Let_def)
  have p: "TOKENS s t \<noteq> None" "TOKENS ?s1 t \<noteq> None" "TOKENS ?s2 t \<noteq> None" "TOKENS ?s3 t \<noteq> None"
    using assms(2) by (simp_all add: createToken_start_dom)
  from assms(1) consider "t = token_id E n (Some ''duration'')" | "t = token_id E n (Some ''currency'')"
    | "t = token_id E n (Some ''comparison'')" | "t = token_id E n (Some ''calculation'')"
    by (auto simp add: four_ids_eq)
  then show ?thesis
  proof cases
    case 1
    have "has_null ?s1 t"
      using createToken_start_has_null [OF v(1), of s E n] p(1) 1 by simp
    then show ?thesis unfolding unf by (simp add: createToken_start_keeps_has_null v)
  next
    case 2
    have "has_null ?s2 t"
      using createToken_start_has_null [OF v(2), of ?s1 E n] p(2) 2 by simp
    then show ?thesis unfolding unf by (simp add: createToken_start_keeps_has_null v)
  next
    case 3
    have "has_null ?s3 t"
      using createToken_start_has_null [OF v(3), of ?s2 E n] p(3) 3 by simp
    then show ?thesis unfolding unf by (simp add: createToken_start_keeps_has_null v)
  next
    case 4
    show ?thesis
      unfolding unf using createToken_start_has_null [OF v(4), of ?s3 E n] p(4) 4 by simp
  qed
qed

lemma create_four_again:
  assumes "\<forall>t \<in> set (four_ids E n). has_null s t"
  shows "TOKENS (create_four E n s) = TOKENS s"
    and "host_calls (create_four E n s) = host_calls s @ map (\<lambda>t. SetValue t JNull) (four_ids E n)"
proof -
  let ?o1 = "defaultOptions\<lparr>opt_src := Some ''duration''\<rparr>"
  let ?o2 = "defaultOptions\<lparr>opt_src := Some ''currency'', opt_type := ''string''\<rparr>"
  let ?o3 = "defaultOptions\<lparr>opt_src := Some ''comparison'', opt_type := ''number''\<rparr>"
  let ?o4 = "defaultOptions\<lparr>opt_src := Some ''calculation'', opt_type := ''number''\<rparr>"
  let ?s1 = "createToken_start E n ?o1 s"
  let ?s2 = "createToken_start E n ?o2 ?s1"
  let ?s3 = "createToken_start E n ?o3 ?s2"
  let ?s4 = "createToken_start E n ?o4 ?s3"
  have v: "opt_value ?o1 = JNull" "opt_value ?o2 = JNull" "opt_value ?o3 = JNull" "opt_value ?o4 = JNull"
    by (simp_all add: defaultOptions_def)
  have src: "opt_src ?o1 = Some ''duration''" "opt_src ?o2 = Some ''currency''"
    "opt_src ?o3 = Some ''comparison''" "opt_src ?o4 = Some ''calculation''"
    by simp_all
  from assms have h: "has_null s (token_id E n (Some ''duration''))"
    "has_null s (token_id E n (Some ''currency''))"
    "has_null s (token_id E n (Some ''comparison''))"
    "has_null s (token_id E n (Some ''calculation''))"
    by (simp_all add: four_ids_eq)
  have h1: "has_null s (token_id E n (opt_src ?o1))" using h(1) src(1) by simp
  have t1: "TOKENS ?s1 = TOKENS s" by (rule createToken_start_again(1) [OF h1 v(1)])
  have c1: "host_calls ?s1 = host_calls s @ [SetValue (token_id E n (Some ''duration'')) JNull]"
    using createToken_start_again(2) [OF h1 v(1)] src(1) by simp
  have h2: "has_null ?s1 (token_id E n (opt_src ?o2))" using h(2) t1 by (simp add: has_null_def)
  have t2: "TOKENS ?s2 = TOKENS s" using createToken_start_again(1) [OF h2 v(2)] t1 by simp
  have c2: "host_calls ?s2 = host_calls ?s1 @ [SetValue (token_id E n (Some ''currency'')) JNull]"
    using createToken_start_again(2) [OF h2 v(2)] src(2) by simp
  have h3: "has_null ?s2 (token_id E n (opt_src ?o3))" using h(3) t2 by (simp add: has_null_def)
  have t3: "TOKENS ?s3 = TOKENS s" using createToken_start_again(1) [OF h3 v(3)] t2 by simp
  have c3: "host_calls ?s3 = host_calls ?s2 @ [SetValue (token_id E n (Some ''comparison'')) JNull]"
    using createToken_start_again(2) [OF h3 v(3)] src(3) by simp
  have h4: "has_null ?s3 (token_id E n (opt_src ?o4))" using h(4) t3 by (simp add: has_null_def)
  have t4: "TOKENS ?s4 = TOKENS s" using createToken_start_again(1) [OF h4 v(4)] t3 by simp
  have c4: "host_calls ?s4 = host_calls ?s3 @ [SetValue (token_id E n (Some ''calculation'')) JNull]"
    using createToken_start_again(2) [OF h4 v(4)] src(4) by simp
  have unf: "create_four E n s = ?s4" by (simp add: create_four_def Let_def)
  show "TOKENS (create_four E n s) = TOKENS s" using t4 unf by simp
  show "host_calls (create_four E n s) = host_calls s @ map (\<lambda>t. SetValue t JNull) (four_ids E n)"
    unfolding unf c4 c3 c2 c1 by (simp add: four_ids_eq)
qed

lemma remove_four_again:
  assumes "\<forall>t \<in> set (four_ids E n). \<not> live s t"
  shows "TOKENS (remove_four E n s) = TOKENS s"
proof -
  let ?s1 = "removeToken E n ''duration'' s"
  let ?s2 = "removeToken E n ''currency'' ?s1"
  let ?s3 = "removeToken E n ''comparison'' ?s2"
  from assms have h: "\<not> live s (token_id E n (Some ''duration''))"
    "\<not> live s (token_id E n (Some ''currency''))"
    "\<not> live s (token_id E n (Some ''comparison''))"
    "\<not> live s (token_id E n (Some ''calculation''))"
    by (simp_all add: four_ids_eq)
  have t1: "TOKENS ?s1 = TOKENS s" by (rule removeToken_again [OF h(1)])
  have h2: "\<not> live ?s1 (token_id E n (Some ''currency''))" using h(2) by (simp add: removeToken_live)
  have t2: "TOKENS ?s2 = TOKENS ?s1" by (rule removeToken_again [OF h2])
  have h3: "\<not> live ?s2 (token_id E n (Some ''comparison''))" using h(3) by (simp add: removeToken_live)
  have t3: "TOKENS ?s3 = TOKENS ?s2" by (rule removeToken_again [OF h3])
  have h4: "\<not> live ?s3 (token_id E n (Some ''calculation''))" using h(4) by (simp add: removeToken_live)
  have t4: "TOKENS (removeToken E n ''calculation'' ?s3) = TOKENS ?s3" by (rule removeToken_again [OF h4])
  show ?thesis using t1 t2 t3 t4 by (simp add: remove_four_def Let_def)
qed

subsection \<open>The two loops of setTokens\<close>

lemma creates_dom:
  "(TOKENS (fold (create_four E) ns s) t = None) = (TOKENS s t = None)"
  by (induction ns arbitrary: s) (simp_all add: create_four_dom)

lemma creates_live:
  "live (fold (create_four E) ns s) t = live s t"
  by (induction ns arbitrary: s) (simp_all add: create_four_live)

lemma creates_keep_has_null:
  "has_null s t \<Longrightarrow> has_null (fold (create_four E) ns s) t"
  by (induction ns arbitrary: s) (simp_all add: create_four_keeps_has_null)

lemma creates_has_null:
  "t \<in> set (ids_of E ns) \<Longrightarrow> TOKENS s t \<noteq> None \<Longrightarrow> has_null (fold (create_four E) ns s) t"
proof (induction ns arbitrary: s)
  case Nil
  then show ?case by (simp add: ids_of_Nil)
next
  case (Cons n ns)
  have present: "TOKENS (create_four E n s) t \<noteq> None"
    using Cons.prems(2) by (simp add: create_four_dom)
  show ?case
  proof (cases "t \<in> set (ids_of E ns)")
    case True
    then show ?thesis using Cons.IH [OF True present] by simp
  next
    case False
    with Cons.prems(1) have "t \<in> set (four_ids E n)" by (simp add: ids_of_Cons)
    then have "has_null (create_four E n s) t" using Cons.prems(2) by (rule create_four_has_null)
    then show ?thesis by (simp add: creates_keep_has_null)
  qed
qed

lemma creates_pending:
  "pending (fold (create_four E) ns s)
   = pending s @ filter (\<lambda>p. TOKENS s (p_id p) = None) (requests E ns)"
  by (induction ns arbitrary: s)
     (simp_all add: requests_Nil requests_Cons create_four_pending create_four_dom)

lemma creates_again:
  assumes "\<forall>t \<in> set (ids_of E ns). has_null s t"
  shows "TOKENS (fold (create_four E) ns s) = TOKENS s
         \<and> host_calls (fold (create_four E) ns s)
           = host_calls s @ map (\<lambda>t. SetValue t JNull) (ids_of E ns)"
  using assms
proof (induction ns arbitrary: s)
  case Nil
  show ?case by (simp add: ids_of_Nil)
next
  case (Cons n ns)
  have one: "\<forall>t \<in> set (four_ids E n). has_null s t"
    using Cons.prems by (simp add: ids_of_Cons)
  have rest: "\<forall>t \<in> set (ids_of E ns). has_null (create_four E n s) t"
    using Cons.prems by (simp add: ids_of_Cons create_four_keeps_has_null)
  show ?case
    using Cons.IH [OF rest] create_four_again [OF one]
    by (simp add: ids_of_Cons)
qed

lemma removes_dom:
  "(TOKENS (fold (remove_four E) ds s) t = None) = (TOKENS s t = None)"
  by (induction ds arbitrary: s) (simp_all add: remove_four_dom)

lemma removes_live:
  "live (fold (remove_four E) ds s) t = (live s t \<and> t \<notin> set (ids_of E ds))"
  by (induction ds arbitrary: s) (auto simp add: remove_four_live ids_of_Cons ids_of_Nil)

lemma removes_has_null:
  "has_null (fold (remove_four E) ds s) t = has_null s t"
  by (induction ds arbitrary: s) (simp_all add: remove_four_has_null)

lemma removes_pending:
  "pending (fold (remove_four E) ds s) = pending s"
  by (induction ds arbitrary: s) (simp_all add: remove_four_pending)

lemma removes_calls:
  "host_calls (fold (remove_four E) ds s)
   = host_calls s @ map Unregister (filter (\<lambda>t. TOKENS s t \<noteq> None) (ids_of E ds))"
  by (induction ds arbitrary: s)
     (simp_all del: not_None_eq add: ids_of_Nil ids_of_Cons remove_four_calls remove_four_dom)

lemma removes_again:
  "\<forall>t \<in> set (ids_of E ds). \<not> live s t \<Longrightarrow> TOKENS (fold (remove_four E) ds s) = TOKENS s"
proof (induction ds arbitrary: s)
  case Nil
  show ?case by simp
next
  case (Cons d ds)
  have one: "\<forall>t \<in> set (four_ids E d). \<not> live s t"
    using Cons.prems by (simp add: ids_of_Cons)
  have rest: "\<forall>t \<in> set (ids_of E ds). \<not> live (remove_four E d s) t"
    using Cons.prems by (simp add: ids_of_Cons remove_four_live)
  show ?case
    using Cons.IH [OF rest] remove_four_again [OF one] by simp
qed

subsection \<open>setTokens, and the host's answers\<close>

lemma setTokens_dom:
  "(TOKENS (setTokens E new old s) t = None) = (TOKENS s t = None)"
  by (simp add: setTokens_folds removes_dom creates_dom)

lemma setTokens_pending:
  "pending (setTokens E new old s)
   = pending s @ filter (\<lambda>p. TOKENS s (p_id p) = None) (requests E new)"
  by (simp add: setTokens_folds removes_pending creates_pending)

lemma setTokens_live:
  "live (setTokens E new old s) t = (live s t \<and> t \<notin> set (ids_of E (difference new old)))"
  by (simp add: setTokens_folds removes_live creates_live)

lemma setTokens_has_null:
  "t \<in> set (ids_of E new) \<Longrightarrow> TOKENS s t \<noteq> None \<Longrightarrow> has_null (setTokens E new old s) t"
  by (simp add: setTokens_folds removes_has_null creates_has_null)

lemma asked_ids:
  "set (map p_id (filter (\<lambda>p. TOKENS s (p_id p) = None) (requests E new)))
   = {t \<in> set (ids_of E new). TOKENS s t = None}"
proof -
  have "set (map p_id (filter (\<lambda>p. TOKENS s (p_id p) = None) (requests E new)))
        = {t \<in> set (map p_id (requests E new)). TOKENS s t = None}"
    by auto
  then show ?thesis by (simp add: requests_ids)
qed

lemma answered_live:
  assumes "pending s = []"
  shows "live (host_answers (setTokens E new old s)) t
         = (t \<in> set (ids_of E new) \<and> TOKENS s t = None
            \<or> live s t \<and> t \<notin> set (ids_of E (difference new old)))"
  unfolding host_answers_live setTokens_pending setTokens_live assms append_Nil asked_ids
  by simp

lemma answered_has_null:
  assumes "pending s = []" "t \<in> set (ids_of E new)"
  shows "has_null (host_answers (setTokens E new old s)) t"
proof -
  have nulls: "\<forall>p \<in> set (pending (setTokens E new old s)). p_value p = JNull"
    by (auto simp add: setTokens_pending assms(1) requests_null)
  show ?thesis
  proof (cases "TOKENS s t = None")
    case True
    with assms(2) have "t \<in> set (map p_id (pending (setTokens E new old s)))"
      unfolding setTokens_pending assms(1) append_Nil asked_ids by simp
    then show ?thesis by (simp add: host_answers_has_null [OF nulls])
  next
    case False
    with assms(2) have "has_null (setTokens E new old s) t" by (rule setTokens_has_null)
    then show ?thesis by (simp add: host_answers_has_null [OF nulls])
  qed
qed


lemma app_ab_quiet: "pending app_ab = []"
  by (simp add: app_ab_def host_answers_pending)

lemma started_app_quiet: "pending started_app = []"
  by (simp add: started_app_eq)

text \<open>
  C7, as the code has it. Let no call of \<open>createToken\<close> be waiting when \<open>setTokens\<close> is
  called. Once the host has answered the calls \<open>setTokens\<close> left waiting, the registry
  holds, for every new name, a handle for each of its four kinds, with value null. Such
  a handle is registered with the host exactly when the registry had no handle under the
  identifier before the call, or had one that was still registered and whose identifier
  no removed name derives: a handle unregistered earlier is reused as it is. A token of
  an old name that is not a new name is not registered with the host afterwards, unless
  the registry had no handle for it and a new name derives the same identifier.
\<close>

theorem setTokens_tokens_of_new_and_removed_names:
  assumes "pending s = []"
  shows "(\<forall>n \<in> set new. \<forall>k \<in> set kinds.
            has_null (host_answers (setTokens E new old s)) (token_id E n (Some k))
            \<and> (live (host_answers (setTokens E new old s)) (token_id E n (Some k))
                \<longleftrightarrow> TOKENS s (token_id E n (Some k)) = None
                    \<or> live s (token_id E n (Some k))
                      \<and> token_id E n (Some k) \<notin> set (ids_of E (difference new old))))
         \<and> (\<forall>d \<in> set old - set new. \<forall>k \<in> set kinds.
            live (host_answers (setTokens E new old s)) (token_id E d (Some k))
              \<longleftrightarrow> TOKENS s (token_id E d (Some k)) = None
                  \<and> token_id E d (Some k) \<in> set (ids_of E new))"
proof (intro conjI ballI)
  fix n k assume nk: "n \<in> set new" "k \<in> set kinds"
  let ?t = "token_id E n (Some k)"
  have mem: "?t \<in> set (ids_of E new)" using nk by (rule ids_of_member)
  show "has_null (host_answers (setTokens E new old s)) ?t"
    using assms mem by (rule answered_has_null)
  show "live (host_answers (setTokens E new old s)) ?t
        \<longleftrightarrow> TOKENS s ?t = None \<or> live s ?t \<and> ?t \<notin> set (ids_of E (difference new old))"
    using mem by (simp add: answered_live [OF assms])
next
  fix d k assume dk: "d \<in> set old - set new" "k \<in> set kinds"
  then have "d \<in> set (difference new old)" by (simp add: difference_set)
  then have "token_id E d (Some k) \<in> set (ids_of E (difference new old))"
    using dk(2) by (rule ids_of_member)
  then show "live (host_answers (setTokens E new old s)) (token_id E d (Some k))
        \<longleftrightarrow> TOKENS s (token_id E d (Some k)) = None
            \<and> token_id E d (Some k) \<in> set (ids_of E new)"
    by (auto simp add: answered_live [OF assms])
qed

text \<open>
  The theorem at work: with \<open>a\<close> and \<open>b\<close> tracked, \<open>b\<close> is kept and \<open>a\<close> removed; and
  on an empty registry \<open>a\<close> is added while \<open>A\<close>, which derives the same identifiers,
  is removed.
\<close>

theorem setTokens_witness:
  "has_null (host_answers (setTokens env0 [''b''] [''a'', ''b''] app_ab)) (token_id env0 ''b'' (Some ''duration''))
   \<and> live (host_answers (setTokens env0 [''b''] [''a'', ''b''] app_ab)) (token_id env0 ''b'' (Some ''duration''))
   \<and> \<not> live (host_answers (setTokens env0 [''b''] [''a'', ''b''] app_ab)) (token_id env0 ''a'' (Some ''duration''))
   \<and> live (host_answers (setTokens env0 [''a''] [''A''] started_app)) (token_id env0 ''A'' (Some ''duration''))"
proof -
  let ?S = "host_answers (setTokens env0 [''b''] [''a'', ''b''] app_ab)"
  note T = setTokens_tokens_of_new_and_removed_names [OF app_ab_quiet, of "[''b'']" env0 "[''a'', ''b'']"]
  note U = setTokens_tokens_of_new_and_removed_names [OF started_app_quiet, of "[''a'']" env0 "[''A'']"]
  have n: "''b'' \<in> set [''b'']" by simp
  have k: "''duration'' \<in> set kinds" by (simp add: kinds_def)
  have d: "''a'' \<in> set [''a'', ''b''] - set [''b'']" by simp
  have d': "''A'' \<in> set [''A''] - set [''a'']" by simp
  from T n k have 1: "has_null ?S (token_id env0 ''b'' (Some ''duration''))" by blast
  from T n k have 2: "live ?S (token_id env0 ''b'' (Some ''duration''))
      \<longleftrightarrow> TOKENS app_ab (token_id env0 ''b'' (Some ''duration'')) = None
          \<or> live app_ab (token_id env0 ''b'' (Some ''duration''))
            \<and> token_id env0 ''b'' (Some ''duration'') \<notin> set (ids_of env0 (difference [''b''] [''a'', ''b'']))"
    by blast
  have rhs2: "live app_ab (token_id env0 ''b'' (Some ''duration''))
            \<and> token_id env0 ''b'' (Some ''duration'') \<notin> set (ids_of env0 (difference [''b''] [''a'', ''b'']))"
    by code_simp
  from T d k have 3: "live ?S (token_id env0 ''a'' (Some ''duration''))
      \<longleftrightarrow> TOKENS app_ab (token_id env0 ''a'' (Some ''duration'')) = None
          \<and> token_id env0 ''a'' (Some ''duration'') \<in> set (ids_of env0 [''b''])"
    by blast
  have rhs3: "token_id env0 ''a'' (Some ''duration'') \<notin> set (ids_of env0 [''b''])"
    by code_simp
  from U d' k have 4: "live (host_answers (setTokens env0 [''a''] [''A''] started_app)) (token_id env0 ''A'' (Some ''duration''))
      \<longleftrightarrow> TOKENS started_app (token_id env0 ''A'' (Some ''duration'')) = None
          \<and> token_id env0 ''A'' (Some ''duration'') \<in> set (ids_of env0 [''a''])"
    by blast
  have rhs4: "TOKENS started_app (token_id env0 ''A'' (Some ''duration'')) = None
          \<and> token_id env0 ''A'' (Some ''duration'') \<in> set (ids_of env0 [''a''])"
    by code_simp
  show ?thesis using 1 2 rhs2 3 rhs3 4 rhs4 by simp
qed

text \<open>
  The specification has the four tokens of every new name exist after \<open>setTokens\<close>.
  That fails for a name that is tracked again after it was removed: \<open>removeToken\<close> left
  the unregistered handles in the registry, so \<open>createToken\<close> registers nothing and
  only sets values, and none of the four tokens is registered with the host, also when
  the host has answered. And when \<open>setTokens\<close> returns for a name that is new, the
  registry holds none of its handles yet.
\<close>

theorem readded_name_counterexample:
  "map (live (host_answers (setTokens env0 [''a''] [] app_a_removed))) (four_ids env0 ''a'')
     = [False, False, False, False]
   \<and> drop (length (host_calls app_a_removed))
       (host_calls (host_answers (setTokens env0 [''a''] [] app_a_removed)))
     = [SetValue ''a_duration'' JNull, SetValue ''a_currency'' JNull,
        SetValue ''a_comparison'' JNull, SetValue ''a_calculation'' JNull]
   \<and> map (TOKENS (setTokens env0 [''a''] [] started_app)) (four_ids env0 ''a'')
     = [None, None, None, None]"
  by code_simp

text \<open>
  C8, as the code has it. Let no call of \<open>createToken\<close> be waiting at the first
  \<open>setTokens\<close>, and let the host have answered before the second one with the same
  lists. The second call asks the host for no registration and leaves no call waiting:
  it sets the value of every token of the new names to null again, and it asks the host
  once more to unregister every token of a removed name whose handle the registry
  holds. The registry is as the first call left it, provided no removed name derives an
  identifier of a new name.
\<close>

theorem setTokens_twice:
  assumes "pending s = []"
  shows "pending (setTokens E new old (host_answers (setTokens E new old s))) = []
   \<and> host_calls (setTokens E new old (host_answers (setTokens E new old s)))
     = host_calls (host_answers (setTokens E new old s))
       @ map (\<lambda>t. SetValue t JNull) (ids_of E new)
       @ map Unregister (filter (\<lambda>t. TOKENS (host_answers (setTokens E new old s)) t \<noteq> None)
                           (ids_of E (difference new old)))
   \<and> (set (ids_of E new) \<inter> set (ids_of E (difference new old)) = {} \<longrightarrow>
        TOKENS (setTokens E new old (host_answers (setTokens E new old s)))
          = TOKENS (host_answers (setTokens E new old s)))"
proof -
  let ?s1 = "host_answers (setTokens E new old s)"
  let ?c = "fold (create_four E) new ?s1"
  have nulls: "\<forall>t \<in> set (ids_of E new). has_null ?s1 t"
    using assms by (simp add: answered_has_null)
  then have present: "\<forall>t \<in> set (ids_of E new). TOKENS ?s1 t \<noteq> None"
    by (auto simp add: has_null_def split: option.splits)
  from creates_again [OF nulls]
  have c: "TOKENS ?c = TOKENS ?s1"
    "host_calls ?c = host_calls ?s1 @ map (\<lambda>t. SetValue t JNull) (ids_of E new)"
    by simp_all
  have "filter (\<lambda>p. TOKENS ?s1 (p_id p) = None) (requests E new) = []"
    using present by (auto simp add: filter_empty_conv requests_ids [symmetric])
  then have p: "pending (setTokens E new old ?s1) = []"
    by (simp add: setTokens_pending host_answers_pending)
  have calls: "host_calls (setTokens E new old ?s1)
     = host_calls ?s1 @ map (\<lambda>t. SetValue t JNull) (ids_of E new)
       @ map Unregister (filter (\<lambda>t. TOKENS ?s1 t \<noteq> None) (ids_of E (difference new old)))"
    by (simp add: setTokens_folds [of E new old ?s1] removes_calls c)
  have same: "TOKENS (setTokens E new old ?s1) = TOKENS ?s1"
    if disj: "set (ids_of E new) \<inter> set (ids_of E (difference new old)) = {}"
  proof -
    have "\<forall>t \<in> set (ids_of E (difference new old)). \<not> live ?c t"
      using disj by (auto simp add: creates_live answered_live [OF assms])
    from removes_again [OF this] c(1) show ?thesis
      by (simp add: setTokens_folds [of E new old ?s1])
  qed
  from p calls same show ?thesis by blast
qed
theorem setTokens_twice_witness:
  "TOKENS (setTokens env0 [''b''] [''a'', ''b''] (host_answers (setTokens env0 [''b''] [''a'', ''b''] app_ab)))
     = TOKENS (host_answers (setTokens env0 [''b''] [''a'', ''b''] app_ab))
   \<and> pending (setTokens env0 [''b''] [''a'', ''b''] (host_answers (setTokens env0 [''b''] [''a'', ''b''] app_ab))) = []
   \<and> host_calls (setTokens env0 [''b''] [''a'', ''b''] (host_answers (setTokens env0 [''b''] [''a'', ''b''] app_ab)))
     = host_calls (host_answers (setTokens env0 [''b''] [''a'', ''b''] app_ab))
       @ [SetValue ''b_duration'' JNull, SetValue ''b_currency'' JNull,
          SetValue ''b_comparison'' JNull, SetValue ''b_calculation'' JNull,
          Unregister ''a_duration'', Unregister ''a_currency'',
          Unregister ''a_comparison'', Unregister ''a_calculation'']"
proof -
  have ev: "map (\<lambda>t. SetValue t JNull) (ids_of env0 [''b''])
       @ map Unregister (filter (\<lambda>t. TOKENS (host_answers (setTokens env0 [''b''] [''a'', ''b''] app_ab)) t \<noteq> None)
                           (ids_of env0 (difference [''b''] [''a'', ''b''])))
     = [SetValue ''b_duration'' JNull, SetValue ''b_currency'' JNull,
          SetValue ''b_comparison'' JNull, SetValue ''b_calculation'' JNull,
          Unregister ''a_duration'', Unregister ''a_currency'',
          Unregister ''a_comparison'', Unregister ''a_calculation'']"
    by code_simp
  have disj: "set (ids_of env0 [''b'']) \<inter> set (ids_of env0 (difference [''b''] [''a'', ''b''])) = {}"
    by code_simp
  show ?thesis
    using setTokens_twice [OF app_ab_quiet, of env0 "[''b'']" "[''a'', ''b'']"] ev disj by simp
qed

text \<open>
  The specification has the second call make no further create or remove call. That
  fails as soon as a name is removed: the handles of \<open>a\<close> are still in the registry
  and are unregistered a second time. It also fails for a second call made before the
  host has answered the first: the registry holds no handle yet, and every token is
  registered again.
\<close>

theorem second_setTokens_counterexample:
  "drop (length (host_calls (host_answers (setTokens env0 [''b''] [''a'', ''b''] app_ab))))
     (host_calls (setTokens env0 [''b''] [''a'', ''b'']
        (host_answers (setTokens env0 [''b''] [''a'', ''b''] app_ab))))
   = [SetValue ''b_duration'' JNull, SetValue ''b_currency'' JNull,
      SetValue ''b_comparison'' JNull, SetValue ''b_calculation'' JNull,
      Unregister ''a_duration'', Unregister ''a_currency'',
      Unregister ''a_comparison'', Unregister ''a_calculation'']
   \<and> host_calls (setTokens env0 [''a''] [] (setTokens env0 [''a''] [] started_app))
   = [CreateToken ''a_duration'' ''string'' ''a Duration'',
      CreateToken ''a_currency'' ''string'' ''a Currency'',
      CreateToken ''a_comparison'' ''number'' ''a Comparison'',
      CreateToken ''a_calculation'' ''number'' ''a Calculation'',
      CreateToken ''a_duration'' ''string'' ''a Duration'',
      CreateToken ''a_currency'' ''string'' ''a Currency'',
      CreateToken ''a_comparison'' ''number'' ''a Comparison'',
      CreateToken ''a_calculation'' ''number'' ''a Calculation'']"
  by code_simp

section \<open>Timer: action_START\<close>

lemma others_of_filtered:
  "of_other_names token (filter (\<lambda>e. getprop e ''name'' \<noteq> JStr token) xs) = of_other_names token xs"
  by (induction xs) (simp_all add: of_other_names_def)

text \<open>
  C3, as the code has it. \<open>action_START\<close> puts, as the last entry of \<open>COMPARISONS\<close>,
  an entry for the name with the supplied baseline value and a date: the current time
  when the option \<open>dateStart\<close> is truthy, the value of \<open>dateStart\<close> itself (null by
  default) otherwise. The entries before it are entries of the list as it was, in their
  order, and every entry that belongs to another name is among them. \<open>VARIABLES\<close>,
  \<open>TOTALS\<close> and the tokens stay as they are, the document is persisted when the store
  takes the write, and the call always succeeds.
\<close>

theorem action_START_appends_entry:
  "fst (action_START E now token options s) = Inr ()
   \<and> COMPARISONS (appSettings (snd (action_START E now token options s))) \<noteq> []
   \<and> last (COMPARISONS (appSettings (snd (action_START E now token options s))))
       = [(''token'', JStr token),
          (''date'', if truthy (dateStart options) then JDate now else dateStart options),
          (''comparison'', comparison options)]
   \<and> subseq (butlast (COMPARISONS (appSettings (snd (action_START E now token options s)))))
       (COMPARISONS (appSettings s))
   \<and> of_other_names token (butlast (COMPARISONS (appSettings (snd (action_START E now token options s)))))
       = of_other_names token (COMPARISONS (appSettings s))
   \<and> VARIABLES (appSettings (snd (action_START E now token options s))) = VARIABLES (appSettings s)
   \<and> TOTALS (appSettings (snd (action_START E now token options s))) = TOTALS (appSettings s)
   \<and> TOKENS (snd (action_START E now token options s)) = TOKENS s
   \<and> host_calls (snd (action_START E now token options s)) = host_calls s
   \<and> (\<not> store_fails s \<longrightarrow>
        stored (snd (action_START E now token options s))
          = Some (appSettings (snd (action_START E now token options s))))"
  by (simp add: action_START_def updateSettings_def updateSettings_try_def Let_def
        others_of_filtered)

text \<open>The theorem at work: \<open>a\<close> is started while \<open>b\<close> is running.\<close>

theorem action_START_appends_entry_witness:
  "fst (action_START env0 1000 ''a'' (timed 5) app_b_started) = Inr ()
   \<and> last (COMPARISONS (appSettings (snd (action_START env0 1000 ''a'' (timed 5) app_b_started))))
       = [(''token'', JStr ''a''), (''date'', JDate 1000), (''comparison'', JNum (Num 5))]
   \<and> of_other_names ''a''
       (butlast (COMPARISONS (appSettings (snd (action_START env0 1000 ''a'' (timed 5) app_b_started)))))
       = [[(''token'', JStr ''b''), (''date'', JDate 500), (''comparison'', JNum (Num 3))]]
   \<and> stored (snd (action_START env0 1000 ''a'' (timed 5) app_b_started))
       = Some (appSettings (snd (action_START env0 1000 ''a'' (timed 5) app_b_started)))"
proof -
  have ok: "\<not> store_fails app_b_started" by code_simp
  have before: "of_other_names ''a'' (COMPARISONS (appSettings app_b_started))
      = [[(''token'', JStr ''b''), (''date'', JDate 500), (''comparison'', JNum (Num 3))]]"
    by code_simp
  show ?thesis
    using action_START_appends_entry [of env0 1000 "''a''" "timed 5" app_b_started] ok before
    by (simp add: timed_def)
qed

text \<open>
  The specification has the current time recorded and the earlier entry replaced. That
  fails for a start that passes only a baseline value: the date is null, and the earlier
  entry for the name is still in the list.
\<close>

theorem start_without_flag_counterexample:
  "COMPARISONS (appSettings (snd (action_START env0 2000 ''a''
       (defaultStartOptions\<lparr>comparison := JNum (Num 7)\<rparr>)
       (snd (action_START env0 1000 ''a'' (timed 5) started_app)))))
   = [[(''token'', JStr ''a''), (''date'', JDate 1000), (''comparison'', JNum (Num 5))],
      [(''token'', JStr ''a''), (''date'', JNull), (''comparison'', JNum (Num 7))]]"
  by code_simp

section \<open>The timer actions look entries up by a property they never write\<close>

text \<open>
  The entries \<open>action_START\<close> and \<open>action_END\<close> write have the properties \<open>token\<close>,
  \<open>date\<close>, \<open>duration\<close> and \<open>comparison\<close>. The filters and the lookup read \<open>name\<close>.
  On a document whose entries have no such property the filter of \<open>action_START\<close> keeps
  every entry, \<open>action_START\<close> keeps the document that way, and \<open>action_END\<close> finds
  nothing and fails on its first property read, whatever the name.
\<close>

lemma find_by_name_none:
  "\<forall>e \<in> set xs. getprop e ''name'' = JUndefined \<Longrightarrow>
   find (\<lambda>x. getprop x ''name'' = JStr token) xs = None"
  by (induction xs) simp_all

lemma filter_by_name_all:
  "\<forall>e \<in> set xs. getprop e ''name'' = JUndefined \<Longrightarrow>
   filter (\<lambda>x. getprop x ''name'' \<noteq> JStr token) xs = xs"
  by (induction xs) simp_all

lemma action_START_keeps_every_entry:
  assumes "\<forall>e \<in> set (COMPARISONS (appSettings s)). getprop e ''name'' = JUndefined"
  shows "COMPARISONS (appSettings (snd (action_START E now token options s)))
         = COMPARISONS (appSettings s)
           @ [[(''token'', JStr token),
               (''date'', if truthy (dateStart options) then JDate now else dateStart options),
               (''comparison'', comparison options)]]"
  using filter_by_name_all [OF assms, of token]
  by (simp add: action_START_def updateSettings_def updateSettings_try_def Let_def)

lemma action_START_keeps_entries_unnamed:
  assumes "\<forall>e \<in> set (COMPARISONS (appSettings s)). getprop e ''name'' = JUndefined"
  shows "\<forall>e \<in> set (COMPARISONS (appSettings (snd (action_START E now token options s)))).
           getprop e ''name'' = JUndefined"
  using assms
  by (simp add: action_START_keeps_every_entry [OF assms] getprop_def)

lemma action_END_lookup_fails:
  assumes "find (\<lambda>x. getprop x ''name'' = JStr token) (COMPARISONS (appSettings s)) = None"
  shows "action_END E now token v s
         = (Inl (TypeError ''Cannot read properties of undefined (reading date)''), s)"
  using assms by (simp add: action_END_def Let_def)

lemma action_END_unnamed_entries_fails:
  assumes "\<forall>e \<in> set (COMPARISONS (appSettings s)). getprop e ''name'' = JUndefined"
  shows "action_END E now token v s
         = (Inl (TypeError ''Cannot read properties of undefined (reading date)''), s)"
  by (rule action_END_lookup_fails) (rule find_by_name_none [OF assms])

text \<open>
  When the difference of the two values is zero, \<open>calculateComparison\<close> returns the
  number 0 and not the text of \<open>toFixed\<close>. Had the lookup of \<open>action_END\<close> found an
  entry, a final value 0 would count as no value: the new \<open>TOTALS\<close> entry has the
  comparison null, and the only token written is the duration token.
\<close>

lemma calculateComparison_zero_difference:
  "num_sub (parseFloat E final) (parseFloat E start) = Num 0 \<Longrightarrow>
   calculateComparison E start final = JNum (Num 0)"
  by (simp add: calculateComparison_def)

lemma action_END_found_zero_value:
  assumes "find (\<lambda>x. getprop x ''name'' = JStr token) (COMPARISONS (appSettings s)) = Some ec"
  shows "fst (action_END E now token (JNum (Num 0)) s) = Inr ()"
    and "getprop (last (TOTALS (appSettings (snd (action_END E now token (JNum (Num 0)) s)))))
           ''comparison'' = JNull"
    and "host_calls (snd (action_END E now token (JNum (Num 0)) s))
         = host_calls (createToken E token
             (defaultOptions\<lparr>opt_src := Some ''duration'',
                opt_value := (if truthy (getprop ec ''date'')
                              then calculateDuration E (getprop ec ''date'') (JDate now)
                              else JNull)\<rparr>) s)"
proof -
  show "fst (action_END E now token (JNum (Num 0)) s) = Inr ()"
    using assms by (simp add: action_END_def Let_def)
  show "getprop (last (TOTALS (appSettings (snd (action_END E now token (JNum (Num 0)) s)))))
           ''comparison'' = JNull"
    using assms
    by (simp add: action_END_def Let_def updateSettings_def updateSettings_try_def
          createToken_other_fields getprop_def)
  show "host_calls (snd (action_END E now token (JNum (Num 0)) s))
         = host_calls (createToken E token
             (defaultOptions\<lparr>opt_src := Some ''duration'',
                opt_value := (if truthy (getprop ec ''date'')
                              then calculateDuration E (getprop ec ''date'') (JDate now)
                              else JNull)\<rparr>) s)"
    using assms
    by (simp add: action_END_def Let_def updateSettings_def updateSettings_try_def
          createToken_def setValue_def split: option.splits)
qed

text \<open>
  C1. The lists are meant to hold at most one entry per token name, \<open>action_START\<close>
  filtering the old entry out before it appends the new one. The filter reads the
  property \<open>name\<close>, the entries carry the name under \<open>token\<close>: starting the comparison
  \<open>a\<close> twice leaves two entries for \<open>a\<close> in \<open>COMPARISONS\<close>.
\<close>

theorem start_twice_keeps_both_entries:
  "map (\<lambda>e. getprop e ''token'')
     (COMPARISONS (appSettings (snd (action_START env0 2000 ''a'' (timed 7)
        (snd (action_START env0 1000 ''a'' (timed 5) started_app))))))
   = [JStr ''a'', JStr ''a'']"
  by code_simp

text \<open>
  C2. Ending a comparison that was never started is meant to fail with the error
  \<open>No comparison found\<close>. The date of the entry is read before the entry is tested,
  so the call fails with a \<open>TypeError\<close> instead; the state is left as it was.
\<close>

theorem end_without_start_is_TypeError:
  "action_END env0 1000 ''a'' JUndefined started_app
   = (Inl (TypeError ''Cannot read properties of undefined (reading date)''), started_app)"
  by (simp add: action_END_def started_app_settings default_settings_def)

text \<open>
  C4. A start followed by an end is meant to produce a \<open>TOTALS\<close> entry with the
  duration and the difference of the two values. The lookup of \<open>action_END\<close> compares
  the property \<open>name\<close>, which the entry written by \<open>action_START\<close> does not have: the
  end fails with a \<open>TypeError\<close>, \<open>TOTALS\<close> stays empty and no token is touched.
\<close>

theorem start_then_end_is_TypeError:
  "fst (action_END env0 1000 ''a'' (JNum (Num 3))
          (snd (action_START env0 1000 ''a'' (timed 1) started_app)))
     = Inl (TypeError ''Cannot read properties of undefined (reading date)'')
   \<and> TOTALS (appSettings (snd (action_END env0 1000 ''a'' (JNum (Num 3))
          (snd (action_START env0 1000 ''a'' (timed 1) started_app))))) = []
   \<and> host_calls (snd (action_END env0 1000 ''a'' (JNum (Num 3))
          (snd (action_START env0 1000 ''a'' (timed 1) started_app)))) = []"
  by code_simp

text \<open>
  C10. With a started comparison, an end with the final value \<open>0\<close> is meant to write a
  \<open>TOTALS\<close> entry whose comparison is null. For the same reason as above the call
  fails with a \<open>TypeError\<close> and writes nothing.
\<close>

theorem start_then_end_zero_is_TypeError:
  "fst (action_END env0 2500 ''b'' (JNum (Num 0))
          (snd (action_START env0 1000 ''b'' (timed 4) started_app)))
     = Inl (TypeError ''Cannot read properties of undefined (reading date)'')
   \<and> TOTALS (appSettings (snd (action_END env0 2500 ''b'' (JNum (Num 0))
          (snd (action_START env0 1000 ''b'' (timed 4) started_app))))) = []"
  by code_simp

end
